theory Spec2Isabelle
  imports Complex_Main
begin

section \<open>Values\<close>

text \<open>
  The serializers of \<^verbatim>\<open>api/serializers.py\<close> work on decimal quantities and on
  loosely typed request data. A decimal is a rational number here: the values are finite and
  the arithmetic (\<open>+\<close>, \<open>-\<close>, \<open>*\<close>, \<open><\<close>, \<open>abs\<close>) is exact, as
  Python's \<^verbatim>\<open>Decimal\<close> is below its context precision.
\<close>

type_synonym decimal = rat

text \<open>
  A value of a JSON field (\<^verbatim>\<open>Purchase.items\<close>, an attribute handed to a validator).
  \<open>JNull\<close> is Python's \<^verbatim>\<open>None\<close>; a \<open>JObj\<close> lists the entries of a dict, whose
  keys are distinct.
\<close>

datatype json =
    JNull
  | JBool bool
  | JNum decimal
  | JStr string
  | JArr "json list"
  | JObj "(string \<times> json) list"

text \<open>Every exception the serializers raise or let through.\<close>

datatype message =
    NameRequired
  | PriceNotPositive
  | StockNegative
  | ThresholdNegative
  | InsufficientIngredient string decimal decimal
  | InsufficientStock string decimal decimal
  | ProductNotFound "nat option"
  | QuantityRequired
  | QuantityInvalid

datatype error =
    ValidationError "message list"
  | DoesNotExist
  | TypeError
  | AttributeError

subsection \<open>Truthiness, \<^verbatim>\<open>or\<close>, \<^verbatim>\<open>dict.get\<close>\<close>

fun truthy :: "json \<Rightarrow> bool" where
  "truthy JNull = False"
| "truthy (JBool b) = b"
| "truthy (JNum r) = (r \<noteq> 0)"
| "truthy (JStr s) = (s \<noteq> [])"
| "truthy (JArr xs) = (xs \<noteq> [])"
| "truthy (JObj kvs) = (kvs \<noteq> [])"

text \<open>\<^verbatim>\<open>a or b\<close>: the first operand when it is truthy, the second otherwise.\<close>

definition py_or :: "json \<Rightarrow> json \<Rightarrow> json" where
  "py_or a b = (if truthy a then a else b)"

text \<open>\<^verbatim>\<open>d.get(k)\<close>: the value stored under \<open>k\<close>, \<^verbatim>\<open>None\<close> when there is none.\<close>

definition dict_get :: "(string \<times> json) list \<Rightarrow> string \<Rightarrow> json" where
  "dict_get d k = (case map_of d k of None \<Rightarrow> JNull | Some v \<Rightarrow> v)"

subsection \<open>\<^verbatim>\<open>Decimal(str(v))\<close>\<close>

text \<open>
  \<^verbatim>\<open>Decimal\<close> reads a numeric string: surrounding whitespace is stripped and underscores
  are dropped; then come an optional sign, digits with an optional fraction (at least one
  digit in all) and an optional exponent. Anything else raises \<^verbatim>\<open>InvalidOperation\<close>,
  which is \<open>None\<close> here. The spellings of infinities and NaNs, which stand for no number,
  have no value in this embedding and are \<open>None\<close> as well.
\<close>

definition isspace :: "char \<Rightarrow> bool" where
  "isspace c \<longleftrightarrow>
     c \<in> set [CHR 0x09, CHR 0x0A, CHR 0x0B, CHR 0x0C, CHR 0x0D,
              CHR 0x1C, CHR 0x1D, CHR 0x1E, CHR 0x1F, CHR 0x20]"

definition strip :: "string \<Rightarrow> string" where
  "strip s = rev (dropWhile isspace (rev (dropWhile isspace s)))"

definition isdigit :: "char \<Rightarrow> bool" where
  "isdigit c \<longleftrightarrow> c \<in> set ''0123456789''"

definition digit_val :: "char \<Rightarrow> nat" where
  "digit_val c = of_char c - 48"

definition nat_of_digits :: "string \<Rightarrow> nat" where
  "nat_of_digits ds = foldl (\<lambda>n c. 10 * n + digit_val c) 0 ds"

definition scale10 :: "decimal \<Rightarrow> int \<Rightarrow> decimal" where
  "scale10 x e = (if 0 \<le> e then x * 10 ^ nat e else x / 10 ^ nat (- e))"

text \<open>The exponent part: nothing, or \<^verbatim>\<open>e\<close>, an optional sign and at least one digit.\<close>

definition exponent :: "string \<Rightarrow> int option" where
  "exponent s =
     (case s of
        [] \<Rightarrow> Some 0
      | c # r \<Rightarrow>
          if c = CHR ''e'' \<or> c = CHR ''E'' then
            (let (neg, ds) =
               (case r of
                  [] \<Rightarrow> (False, r)
                | d # r' \<Rightarrow>
                    if d = CHR ''-'' then (True, r')
                    else if d = CHR ''+'' then (False, r')
                    else (False, r))
             in if ds \<noteq> [] \<and> list_all isdigit ds
                then Some (if neg then - int (nat_of_digits ds) else int (nat_of_digits ds))
                else None)
          else None)"

definition Decimal :: "string \<Rightarrow> decimal option" where
  "Decimal v =
     (let s0 = filter (\<lambda>c. c \<noteq> CHR ''_'') (strip v);
          (neg, s1) =
            (case s0 of
               [] \<Rightarrow> (False, s0)
             | c # r \<Rightarrow>
                 if c = CHR ''-'' then (True, r)
                 else if c = CHR ''+'' then (False, r)
                 else (False, s0));
          intpart = takeWhile isdigit s1;
          s2 = dropWhile isdigit s1;
          (frac, s3) =
            (case s2 of
               [] \<Rightarrow> ([], s2)
             | c # r \<Rightarrow>
                 if c = CHR ''.'' then (takeWhile isdigit r, dropWhile isdigit r)
                 else ([], s2))
      in if intpart = [] \<and> frac = [] then None
         else
           (case exponent s3 of
              None \<Rightarrow> None
            | Some e \<Rightarrow>
                let m = of_nat (nat_of_digits (intpart @ frac))
                in Some (scale10 (if neg then - m else m) (e - int (length frac)))))"

text \<open>
  \<^verbatim>\<open>Decimal(str(v))\<close>: the text of a number reads back as that number, a string is
  parsed, and the text of anything else (\<^verbatim>\<open>None\<close>, \<^verbatim>\<open>True\<close>, a list, a dict) is no
  numeric string.
\<close>

fun Decimal_str :: "json \<Rightarrow> decimal option" where
  "Decimal_str (JNum r) = Some r"
| "Decimal_str (JStr s) = Decimal s"
| "Decimal_str _ = None"

section \<open>InventoryChangeSerializer\<close>



section \<open>PurchaseSerializer\<close>


text \<open>
  The loop of \<^verbatim>\<open>PurchaseSerializer.get_total\<close>. \<^verbatim>\<open>item.get\<close> is called outside
  the \<^verbatim>\<open>try\<close>, so an element that is no dict raises \<^verbatim>\<open>AttributeError\<close>; inside the
  \<^verbatim>\<open>try\<close>, a value that \<^verbatim>\<open>Decimal\<close> refuses skips the item.
\<close>

definition item_qty :: "(string \<times> json) list \<Rightarrow> json" where
  "item_qty item = py_or (py_or (dict_get item ''quantity'') (dict_get item ''qty'')) (JNum 0)"

definition item_unit_price :: "(string \<times> json) list \<Rightarrow> json" where
  "item_unit_price item =
     py_or (py_or (py_or (dict_get item ''unitPrice'') (dict_get item ''unit_price''))
                  (dict_get item ''price''))
           (JNum 0)"

fun get_total_loop :: "decimal \<Rightarrow> json list \<Rightarrow> error + decimal" where
  "get_total_loop tot [] = Inr tot"
| "get_total_loop tot (JObj item # rest) =
     (case Decimal_str (item_qty item) of
        None \<Rightarrow> get_total_loop tot rest
      | Some q \<Rightarrow>
          (case Decimal_str (item_unit_price item) of
             None \<Rightarrow> get_total_loop tot rest
           | Some u \<Rightarrow> get_total_loop (tot + q * u) rest))"
| "get_total_loop tot (_ # rest) = Inl AttributeError"


section \<open>The persistent store\<close>

text \<open>
  The tables the serializers read and write. A table is the list of its rows, a row carries
  its primary key, and the ORM calls are functions on the list: \<^verbatim>\<open>objects.get(pk=k)\<close>
  finds the row with key \<open>k\<close>, \<^verbatim>\<open>save()\<close> rewrites the row with the key of the saved
  object, \<^verbatim>\<open>objects.create\<close> appends a row under a key larger than every key in use.
\<close>

definition objects_get :: "('a \<Rightarrow> nat) \<Rightarrow> 'a list \<Rightarrow> nat \<Rightarrow> 'a option" where
  "objects_get key rows k = find (\<lambda>r. key r = k) rows"

definition objects_save :: "('a \<Rightarrow> nat) \<Rightarrow> 'a \<Rightarrow> 'a list \<Rightarrow> 'a list" where
  "objects_save key obj rows = map (\<lambda>r. if key r = key obj then obj else r) rows"

definition next_pk :: "('a \<Rightarrow> nat) \<Rightarrow> 'a list \<Rightarrow> nat" where
  "next_pk key rows = Suc (foldr (\<lambda>r m. max (key r) m) rows 0)"

record product =
  pk :: nat
  name :: string
  price :: decimal
  stock :: decimal
  low_stock_threshold :: decimal

text \<open>A \<^verbatim>\<open>RecipeIngredient\<close> row: the composite product, the ingredient, the quantity per unit.\<close>

record recipe_ingredient =
  rr_product :: nat
  rr_ingredient :: "nat option"
  rr_quantity :: "decimal option"
  rr_unit :: string

record sale =
  s_id :: nat
  s_total_amount :: decimal
  s_payment_method :: string

record sale_item =
  si_sale :: nat
  si_product :: nat
  si_quantity :: decimal
  si_price :: "decimal option"

record order =
  o_id :: nat
  o_customer_name :: string
  o_total_amount :: decimal

record order_item =
  oi_order :: nat
  oi_product_name :: string
  oi_quantity :: decimal
  oi_unit_price :: decimal
  oi_total :: decimal

record db =
  products :: "product list"
  recipe_ingredients :: "recipe_ingredient list"
  sales :: "sale list"
  sale_items :: "sale_item list"
  orders :: "order list"
  order_items :: "order_item list"

text \<open>
  \<^verbatim>\<open>with transaction.atomic()\<close>: when the body raises, the store is what it was on entry.
\<close>

definition atomic :: "(db \<Rightarrow> (error + 'a) \<times> db) \<Rightarrow> db \<Rightarrow> (error + 'a) \<times> db" where
  "atomic body d =
     (case body d of
        (Inl e, _) \<Rightarrow> (Inl e, d)
      | (Inr v, d') \<Rightarrow> (Inr v, d'))"

section \<open>ProductSerializer\<close>

text \<open>
  One entry of \<^verbatim>\<open>recipe_ingredients\<close> after validation: \<^verbatim>\<open>item_data.get('ingredient')\<close>
  is the \<^verbatim>\<open>Product\<close> object the submitted key was resolved to, \<open>None\<close> when the entry
  has none; likewise the quantity.
\<close>

record recipe_item =
  ri_ingredient :: "product option"
  ri_quantity :: "decimal option"
  ri_unit :: string

text \<open>
  The data of a product, as submitted and as \<^verbatim>\<open>validated_data\<close>. A field of type
  \<open>option\<close> may be left out of the payload.
\<close>

record product_data =
  v_name :: string
  v_price :: decimal
  v_stock :: "decimal option"
  v_low_stock_threshold :: "decimal option"
  v_recipe_ingredients :: "recipe_item list option"


definition validate_name :: "string \<Rightarrow> error + string" where
  "validate_name v =
     (if v = [] \<or> strip v = [] then Inl (ValidationError [NameRequired])
      else Inr (strip v))"

definition validate_price :: "decimal \<Rightarrow> error + decimal" where
  "validate_price v = (if v \<le> 0 then Inl (ValidationError [PriceNotPositive]) else Inr v)"

definition validate_stock :: "decimal \<Rightarrow> error + decimal" where
  "validate_stock v = (if v < 0 then Inl (ValidationError [StockNegative]) else Inr v)"

definition validate_low_stock_threshold :: "decimal \<Rightarrow> error + decimal" where
  "validate_low_stock_threshold v =
     (if v < 0 then Inl (ValidationError [ThresholdNegative]) else Inr v)"

text \<open>
  The framework calls \<^verbatim>\<open>validate_<field>\<close> on every field of the payload, gathers the
  messages, and hands \<^verbatim>\<open>create\<close> the returned values when there is no message.
\<close>

definition messages :: "error + 'a \<Rightarrow> message list" where
  "messages r = (case r of Inl (ValidationError ms) \<Rightarrow> ms | _ \<Rightarrow> [])"

definition run_validation :: "product_data \<Rightarrow> error + product_data" where
  "run_validation data =
     (let errs =
            messages (validate_name (v_name data))
          @ messages (validate_price (v_price data))
          @ (case v_stock data of None \<Rightarrow> [] | Some s \<Rightarrow> messages (validate_stock s))
          @ (case v_low_stock_threshold data of
               None \<Rightarrow> []
             | Some t \<Rightarrow> messages (validate_low_stock_threshold t))
      in if errs = [] then Inr (data\<lparr>v_name := strip (v_name data)\<rparr>)
         else Inl (ValidationError errs))"

text \<open>
  \<^verbatim>\<open>Product.objects.create(**validated_data)\<close>. A column the data leaves out takes the
  default that the model class declares; the class is not part of this file, so the defaults
  are the parameter \<open>defaults\<close>.
\<close>

definition Product_objects_create :: "product \<Rightarrow> product_data \<Rightarrow> db \<Rightarrow> product \<times> db" where
  "Product_objects_create defaults validated_data d =
     (let obj = \<lparr>pk = next_pk pk (products d),
                 name = v_name validated_data,
                 price = v_price validated_data,
                 stock = (case v_stock validated_data of
                            None \<Rightarrow> stock defaults | Some s \<Rightarrow> s),
                 low_stock_threshold =
                   (case v_low_stock_threshold validated_data of
                      None \<Rightarrow> low_stock_threshold defaults | Some t \<Rightarrow> t)\<rparr>
      in (obj, d\<lparr>products := products d @ [obj]\<rparr>))"

text \<open>The first loop of \<^verbatim>\<open>create\<close>: one \<^verbatim>\<open>RecipeIngredient\<close> row per entry.\<close>

definition recipe_link :: "product \<Rightarrow> recipe_item \<Rightarrow> recipe_ingredient" where
  "recipe_link obj item_data =
     \<lparr>rr_product = pk obj,
      rr_ingredient = map_option pk (ri_ingredient item_data),
      rr_quantity = ri_quantity item_data,
      rr_unit = ri_unit item_data\<rparr>"

fun create_recipe_links :: "product \<Rightarrow> recipe_item list \<Rightarrow> db \<Rightarrow> db" where
  "create_recipe_links obj [] d = d"
| "create_recipe_links obj (item_data # rest) d =
     create_recipe_links obj rest
       (d\<lparr>recipe_ingredients := recipe_ingredients d @ [recipe_link obj item_data]\<rparr>)"

text \<open>
  The second loop: the deduction of the ingredients. The result carries the store as it is
  when the loop ends or raises, earlier deductions included.
\<close>

fun deduct_ingredients :: "decimal \<Rightarrow> recipe_item list \<Rightarrow> db \<Rightarrow> (error + unit) \<times> db" where
  "deduct_ingredients initial_stock [] d = (Inr (), d)"
| "deduct_ingredients initial_stock (item_data # rest) d =
     (case ri_ingredient item_data of
        None \<Rightarrow> deduct_ingredients initial_stock rest d
      | Some ingredient \<Rightarrow>
          (case ri_quantity item_data of
             None \<Rightarrow> deduct_ingredients initial_stock rest d
           | Some quantity_per_unit \<Rightarrow>
               if quantity_per_unit = 0 \<or> quantity_per_unit \<le> 0
               then deduct_ingredients initial_stock rest d
               else
                 (let total_ingredient_needed = quantity_per_unit * initial_stock
                  in case objects_get pk (products d) (pk ingredient) of
                       None \<Rightarrow> (Inl DoesNotExist, d)
                     | Some ingredient_to_update \<Rightarrow>
                         if stock ingredient_to_update < total_ingredient_needed
                         then (Inl (ValidationError
                                 [InsufficientIngredient (name ingredient)
                                    total_ingredient_needed (stock ingredient_to_update)]), d)
                         else deduct_ingredients initial_stock rest
                                (d\<lparr>products :=
                                     objects_save pk
                                       (ingredient_to_update\<lparr>stock :=
                                          stock ingredient_to_update - total_ingredient_needed\<rparr>)
                                       (products d)\<rparr>))))"

definition ProductSerializer_create ::
  "product \<Rightarrow> product_data \<Rightarrow> db \<Rightarrow> (error + product) \<times> db" where
  "ProductSerializer_create defaults validated_data =
     (let recipe_data =
            (case v_recipe_ingredients validated_data of None \<Rightarrow> [] | Some r \<Rightarrow> r);
          initial_stock = (case v_stock validated_data of None \<Rightarrow> 0 | Some s \<Rightarrow> s)
      in atomic (\<lambda>d.
           let (obj, d1) = Product_objects_create defaults validated_data d;
               d2 = create_recipe_links obj recipe_data d1
           in if 0 < initial_stock then
                (case deduct_ingredients initial_stock recipe_data d2 of
                   (Inl e, d3) \<Rightarrow> (Inl e, d3)
                 | (Inr _, d3) \<Rightarrow> (Inr obj, d3))
              else (Inr obj, d2)))"

text \<open>A request to create a product: validation, then \<^verbatim>\<open>create\<close>.\<close>

definition ProductSerializer_save ::
  "product \<Rightarrow> product_data \<Rightarrow> db \<Rightarrow> (error + product) \<times> db" where
  "ProductSerializer_save defaults data d =
     (case run_validation data of
        Inl e \<Rightarrow> (Inl e, d)
      | Inr validated_data \<Rightarrow> ProductSerializer_create defaults validated_data d)"

section \<open>SaleSerializer\<close>

text \<open>An entry of \<^verbatim>\<open>items\<close>; a key the entry lacks reads as \<open>None\<close>.\<close>

record sale_item_data =
  sid_product_id :: "nat option"
  sid_quantity :: "decimal option"
  sid_price :: "decimal option"

record sale_data =
  sd_total_amount :: decimal
  sd_payment_method :: string
  sd_items :: "sale_item_data list option"

definition Sale_objects_create :: "sale_data \<Rightarrow> db \<Rightarrow> sale \<times> db" where
  "Sale_objects_create validated_data d =
     (let obj = \<lparr>s_id = next_pk s_id (sales d),
                 s_total_amount = sd_total_amount validated_data,
                 s_payment_method = sd_payment_method validated_data\<rparr>
      in (obj, d\<lparr>sales := sales d @ [obj]\<rparr>))"

text \<open>
  The loop over the items. No transaction surrounds it: the store returned with an error is
  the store at the \<^verbatim>\<open>raise\<close>. Comparing the stock with a missing quantity raises
  \<^verbatim>\<open>TypeError\<close>; \<^verbatim>\<open>Product.DoesNotExist\<close> is caught and raised again as a
  validation error.
\<close>

fun sale_items_loop :: "sale \<Rightarrow> sale_item_data list \<Rightarrow> db \<Rightarrow> (error + unit) \<times> db" where
  "sale_items_loop sale_obj [] d = (Inr (), d)"
| "sale_items_loop sale_obj (item_data # rest) d =
     (let product_id = sid_product_id item_data;
          quantity = sid_quantity item_data;
          price_submitted = sid_price item_data
      in case (case product_id of None \<Rightarrow> None
               | Some k \<Rightarrow> objects_get pk (products d) k) of
           None \<Rightarrow> (Inl (ValidationError [ProductNotFound product_id]), d)
         | Some product_obj \<Rightarrow>
             (case quantity of
                None \<Rightarrow> (Inl TypeError, d)
              | Some q \<Rightarrow>
                  if stock product_obj < q
                  then (Inl (ValidationError
                          [InsufficientStock (name product_obj) (stock product_obj) q]), d)
                  else sale_items_loop sale_obj rest
                         (d\<lparr>sale_items := sale_items d @
                               [\<lparr>si_sale = s_id sale_obj, si_product = pk product_obj,
                                 si_quantity = q, si_price = price_submitted\<rparr>],
                            products :=
                              objects_save pk (product_obj\<lparr>stock := stock product_obj - q\<rparr>)
                                (products d)\<rparr>)))"

definition SaleSerializer_create :: "sale_data \<Rightarrow> db \<Rightarrow> (error + sale) \<times> db" where
  "SaleSerializer_create validated_data d =
     (let items_data = (case sd_items validated_data of None \<Rightarrow> [] | Some xs \<Rightarrow> xs);
          (sale_obj, d1) = Sale_objects_create validated_data d
      in case sale_items_loop sale_obj items_data d1 of
           (Inl e, d2) \<Rightarrow> (Inl e, d2)
         | (Inr _, d2) \<Rightarrow> (Inr sale_obj, d2))"

section \<open>OrderSerializer\<close>

record order_item_data =
  oid_product_name :: "string option"
  oid_quantity :: "decimal option"
  oid_unit_price :: "decimal option"

record order_data =
  od_customer_name :: string
  od_total_amount :: "decimal option"
  od_items :: "order_item_data list option"

text \<open>
  \<^verbatim>\<open>Order.objects.create(**validated_data)\<close>: \<^verbatim>\<open>total_amount\<close> is a writable field, so
  the row starts with the submitted amount, or with the default of the model class.
\<close>

definition Order_objects_create :: "order \<Rightarrow> order_data \<Rightarrow> db \<Rightarrow> order \<times> db" where
  "Order_objects_create defaults validated_data d =
     (let obj = \<lparr>o_id = next_pk o_id (orders d),
                 o_customer_name = od_customer_name validated_data,
                 o_total_amount =
                   (case od_total_amount validated_data of
                      None \<Rightarrow> o_total_amount defaults | Some t \<Rightarrow> t)\<rparr>
      in (obj, d\<lparr>orders := orders d @ [obj]\<rparr>))"

text \<open>The loop of \<^verbatim>\<open>OrderSerializer.create\<close>, with its running total.\<close>

fun order_items_loop :: "order \<Rightarrow> decimal \<Rightarrow> order_item_data list \<Rightarrow> db \<Rightarrow> decimal \<times> db" where
  "order_items_loop order_obj tot [] d = (tot, d)"
| "order_items_loop order_obj tot (item # rest) d =
     (let qty = (case oid_quantity item of None \<Rightarrow> 1 | Some q \<Rightarrow> q);
          unit_price = (case oid_unit_price item of None \<Rightarrow> 0 | Some u \<Rightarrow> u);
          line_total = qty * unit_price
      in order_items_loop order_obj (tot + line_total) rest
           (d\<lparr>order_items := order_items d @
                 [\<lparr>oi_order = o_id order_obj,
                   oi_product_name =
                     (case oid_product_name item of None \<Rightarrow> [] | Some n \<Rightarrow> n),
                   oi_quantity = qty, oi_unit_price = unit_price, oi_total = line_total\<rparr>]\<rparr>))"

definition OrderSerializer_create :: "order \<Rightarrow> order_data \<Rightarrow> db \<Rightarrow> order \<times> db" where
  "OrderSerializer_create defaults validated_data d =
     (let items_data = (case od_items validated_data of None \<Rightarrow> [] | Some xs \<Rightarrow> xs);
          (order_obj, d1) = Order_objects_create defaults validated_data d;
          (tot, d2) = order_items_loop order_obj 0 items_data d1;
          order_saved = order_obj\<lparr>o_total_amount := tot\<rparr>
      in (order_saved, d2\<lparr>orders := objects_save o_id order_saved (orders d2)\<rparr>))"

text \<open>
  Reading an order back: \<^verbatim>\<open>total_amount\<close> is a plain model field of the serializer, so
  the representation shows the stored column, next to the item rows of the order.
\<close>

record order_representation =
  rep_id :: nat
  rep_total_amount :: decimal
  rep_items :: "order_item list"

definition OrderSerializer_data :: "db \<Rightarrow> order \<Rightarrow> order_representation" where
  "OrderSerializer_data d obj =
     \<lparr>rep_id = o_id obj,
      rep_total_amount = o_total_amount obj,
      rep_items = filter (\<lambda>r. oi_order r = o_id obj) (order_items d)\<rparr>"

section \<open>Requests and the properties of the store\<close>

text \<open>
  The two requests that deduct stock. A request that fails leaves the store as the failed
  serializer call left it, and the next request runs from there.
\<close>

datatype request = PostProduct product_data | PostSale sale_data

fun handle :: "product \<Rightarrow> request \<Rightarrow> db \<Rightarrow> db" where
  "handle defaults (PostProduct data) d = snd (ProductSerializer_save defaults data d)"
| "handle defaults (PostSale data) d = snd (SaleSerializer_create data d)"

fun serve :: "product \<Rightarrow> request list \<Rightarrow> db \<Rightarrow> db" where
  "serve defaults [] d = d"
| "serve defaults (r # rs) d = serve defaults rs (handle defaults r d)"

definition nonneg_stocks :: "db \<Rightarrow> bool" where
  "nonneg_stocks d \<longleftrightarrow> list_all (\<lambda>p. 0 \<le> stock p) (products d)"

text \<open>
  What a recipe asks of the product with key \<open>k\<close> when \<open>S\<close> units are made: the
  quantity per unit times \<open>S\<close> for every line with an ingredient and a positive quantity,
  nothing for any other line.
\<close>

definition line_need :: "decimal \<Rightarrow> nat \<Rightarrow> recipe_item \<Rightarrow> decimal" where
  "line_need S k item =
     (case ri_ingredient item of
        None \<Rightarrow> 0
      | Some ing \<Rightarrow>
          if pk ing = k
          then (case ri_quantity item of None \<Rightarrow> 0 | Some q \<Rightarrow> if 0 < q then q * S else 0)
          else 0)"

definition total_need :: "decimal \<Rightarrow> nat \<Rightarrow> recipe_item list \<Rightarrow> decimal" where
  "total_need S k recipe = sum_list (map (line_need S k) recipe)"

text \<open>Every ingredient a recipe names is a row of the product table.\<close>

definition ingredients_resolved :: "recipe_item list \<Rightarrow> db \<Rightarrow> bool" where
  "ingredients_resolved recipe d \<longleftrightarrow>
     list_all (\<lambda>item. case ri_ingredient item of
                         None \<Rightarrow> True
                       | Some ing \<Rightarrow> objects_get pk (products d) (pk ing) \<noteq> None) recipe"


definition recipe_of :: "product_data \<Rightarrow> recipe_item list" where
  "recipe_of data = (case v_recipe_ingredients data of None \<Rightarrow> [] | Some r \<Rightarrow> r)"

definition initial_stock_of :: "product_data \<Rightarrow> decimal" where
  "initial_stock_of data = (case v_stock data of None \<Rightarrow> 0 | Some s \<Rightarrow> s)"

text \<open>
  The lines that the deduction loop passes over: no ingredient, no quantity, or a quantity
  that is zero or negative.
\<close>

definition skipped :: "recipe_item \<Rightarrow> bool" where
  "skipped item \<longleftrightarrow>
     (case ri_ingredient item of
        None \<Rightarrow> True
      | Some _ \<Rightarrow> (case ri_quantity item of None \<Rightarrow> True | Some q \<Rightarrow> q \<le> 0))"


text \<open>The row that \<^verbatim>\<open>create\<close> inserts, and the store after both inserts.\<close>

definition new_product :: "product \<Rightarrow> product_data \<Rightarrow> db \<Rightarrow> product" where
  "new_product defaults vd d = fst (Product_objects_create defaults vd d)"

definition with_product :: "product \<Rightarrow> product_data \<Rightarrow> db \<Rightarrow> db" where
  "with_product defaults vd d =
     d\<lparr>products := products d @ [new_product defaults vd d],
       recipe_ingredients :=
         recipe_ingredients d @ map (recipe_link (new_product defaults vd d)) (recipe_of vd)\<rparr>"



text \<open>
  The items of an order and the amount of one of them, with the quantity 1 and the unit price 0
  that \<^verbatim>\<open>create\<close> takes for a key the item lacks.
\<close>

definition order_items_of :: "order_data \<Rightarrow> order_item_data list" where
  "order_items_of data = (case od_items data of None \<Rightarrow> [] | Some xs \<Rightarrow> xs)"

definition line_total :: "order_item_data \<Rightarrow> decimal" where
  "line_total item =
     (case oid_quantity item of None \<Rightarrow> 1 | Some q \<Rightarrow> q) *
     (case oid_unit_price item of None \<Rightarrow> 0 | Some u \<Rightarrow> u)"

text \<open>The row that \<^verbatim>\<open>Order.objects.create\<close> inserts.\<close>

definition new_order :: "order \<Rightarrow> order_data \<Rightarrow> db \<Rightarrow> order" where
  "new_order defaults data d = fst (Order_objects_create defaults data d)"

text \<open>
  What an element of \<^verbatim>\<open>Purchase.items\<close> adds to the total: quantity times unit price
  when both read as decimals, nothing otherwise. \<open>dict_del\<close> removes a key from a dict.
\<close>

fun is_dict :: "json \<Rightarrow> bool" where
  "is_dict (JObj _) = True"
| "is_dict _ = False"



section \<open>A small shop\<close>

text \<open>Two ingredients in stock and a recipe that names them, to run the serializers on.\<close>

definition no_defaults :: product where
  "no_defaults = \<lparr>pk = 0, name = [], price = 0, stock = 0, low_stock_threshold = 0\<rparr>"

definition harina :: product where
  "harina = \<lparr>pk = 11, name = ''harina'', price = 2, stock = 10, low_stock_threshold = 1\<rparr>"

definition azucar :: product where
  "azucar = \<lparr>pk = 12, name = ''azucar'', price = 3, stock = 4, low_stock_threshold = 1\<rparr>"

definition almacen :: db where
  "almacen = \<lparr>products = [harina, azucar], recipe_ingredients = [], sales = [],
              sale_items = [], orders = [], order_items = []\<rparr>"

definition receta :: "recipe_item list" where
  "receta = [\<lparr>ri_ingredient = Some harina, ri_quantity = Some 2, ri_unit = ''kg''\<rparr>,
             \<lparr>ri_ingredient = None, ri_quantity = Some 1, ri_unit = ''kg''\<rparr>,
             \<lparr>ri_ingredient = Some azucar, ri_quantity = Some 0, ri_unit = ''kg''\<rparr>,
             \<lparr>ri_ingredient = Some azucar, ri_quantity = None, ri_unit = ''kg''\<rparr>,
             \<lparr>ri_ingredient = Some harina, ri_quantity = Some 1, ri_unit = ''kg''\<rparr>]"

definition pan :: "decimal option \<Rightarrow> product_data" where
  "pan s = \<lparr>v_name = ''pan'', v_price = 5, v_stock = s, v_low_stock_threshold = None,
            v_recipe_ingredients = Some receta\<rparr>"

definition torta :: product_data where
  "torta = \<lparr>v_name = ''torta'', v_price = 9, v_stock = Some 4, v_low_stock_threshold = Some 1,
             v_recipe_ingredients =
               Some [\<lparr>ri_ingredient = Some azucar, ri_quantity = Some 1, ri_unit = ''kg''\<rparr>,
                     \<lparr>ri_ingredient = Some harina, ri_quantity = Some 3, ri_unit = ''kg''\<rparr>]\<rparr>"

definition venta :: "sale_item_data list \<Rightarrow> sale_data" where
  "venta items = \<lparr>sd_total_amount = 20, sd_payment_method = ''efectivo'', sd_items = Some items\<rparr>"

definition pedido :: order_data where
  "pedido = \<lparr>od_customer_name = ''Ana'', od_total_amount = Some 1,
              od_items = Some [\<lparr>oid_product_name = Some ''pan'', oid_quantity = Some 3,
                                oid_unit_price = Some 10\<rparr>,
                              \<lparr>oid_product_name = Some ''torta'', oid_quantity = Some 2,
                                oid_unit_price = Some 5\<rparr>]\<rparr>"




section \<open>Facts about the tables\<close>

lemmas example_defs = no_defaults_def harina_def azucar_def almacen_def receta_def pan_def

lemma objects_get_SomeD:
  "objects_get key rows k = Some r \<Longrightarrow> key r = k \<and> r \<in> set rows"
  unfolding objects_get_def by (induction rows) (auto split: if_splits)

lemma objects_get_save:
  "objects_get key (objects_save key obj rows) k =
     (if k = key obj then (case objects_get key rows k of None \<Rightarrow> None | Some _ \<Rightarrow> Some obj)
      else objects_get key rows k)"
  unfolding objects_get_def objects_save_def by (induction rows) auto

lemma key_less_next_pk: "r \<in> set rows \<Longrightarrow> key r < next_pk key rows"
  unfolding next_pk_def by (induction rows) auto

lemma objects_get_append:
  "objects_get key (rows @ [obj]) k =
     (case objects_get key rows k of
        None \<Rightarrow> (if key obj = k then Some obj else None)
      | Some r \<Rightarrow> Some r)"
  unfolding objects_get_def by (induction rows) auto

lemma objects_get_fresh: "objects_get key rows (next_pk key rows) = None"
proof (cases "objects_get key rows (next_pk key rows)")
  case None then show ?thesis .
next
  case (Some r)
  then have "key r = next_pk key rows" "r \<in> set rows" by (auto dest: objects_get_SomeD)
  then show ?thesis using key_less_next_pk [of r rows key] by simp
qed



lemma total_need_Cons: "total_need S k (item # recipe) = line_need S k item + total_need S k recipe"
  by (simp add: total_need_def)

lemma total_need_Nil: "total_need S k [] = 0"
  by (simp add: total_need_def)

section \<open>The deduction loop\<close>

lemma deduct_skipped:
  "skipped item \<Longrightarrow> deduct_ingredients S (item # rest) d = deduct_ingredients S rest d"
  by (auto simp: skipped_def split: option.splits)

lemma line_need_skipped: "skipped item \<Longrightarrow> line_need S k item = 0"
  by (auto simp: skipped_def line_need_def split: option.splits)

lemma not_skippedD:
  "\<not> skipped item \<Longrightarrow> \<exists>ing q. ri_ingredient item = Some ing \<and> ri_quantity item = Some q \<and> 0 < q"
  by (auto simp: skipped_def split: option.splits)

lemma line_need_taken:
  "ri_ingredient item = Some ing \<Longrightarrow> ri_quantity item = Some q \<Longrightarrow> 0 < q \<Longrightarrow>
   line_need S k item = (if pk ing = k then q * S else 0)"
  by (simp add: line_need_def)

lemma deduct_taken:
  "ri_ingredient item = Some ing \<Longrightarrow> ri_quantity item = Some q \<Longrightarrow> 0 < q \<Longrightarrow>
   deduct_ingredients S (item # rest) d =
     (case objects_get pk (products d) (pk ing) of
        None \<Rightarrow> (Inl DoesNotExist, d)
      | Some u \<Rightarrow>
          if stock u < q * S
          then (Inl (ValidationError [InsufficientIngredient (name ing) (q * S) (stock u)]), d)
          else deduct_ingredients S rest
                 (d\<lparr>products := objects_save pk (u\<lparr>stock := stock u - q * S\<rparr>) (products d)\<rparr>))"
  by (auto simp: Let_def split: option.splits)

declare deduct_ingredients.simps(2) [simp del]




lemma resolved_Cons:
  "ingredients_resolved (item # recipe) d \<longleftrightarrow>
     (case ri_ingredient item of None \<Rightarrow> True
      | Some ing \<Rightarrow> objects_get pk (products d) (pk ing) \<noteq> None) \<and> ingredients_resolved recipe d"
  by (simp add: ingredients_resolved_def)

lemma resolved_save:
  "ingredients_resolved recipe (d\<lparr>products := objects_save pk u (products d)\<rparr>) =
   ingredients_resolved recipe d"
  by (induction recipe) (auto simp: ingredients_resolved_def objects_get_save split: option.splits)


lemma deduct_failure:
  assumes S: "0 < S"
  shows "item \<in> set recipe \<Longrightarrow> ri_ingredient item = Some ing \<Longrightarrow> ri_quantity item = Some q \<Longrightarrow>
     0 < q \<Longrightarrow> objects_get pk (products d) (pk ing) = Some p \<Longrightarrow> stock p < q * S \<Longrightarrow>
     \<exists>e d'. deduct_ingredients S recipe d = (Inl e, d')"
proof (induction recipe arbitrary: d p)
  case Nil
  then show ?case by simp
next
  case (Cons h recipe)
  show ?case
  proof (cases "skipped h")
    case True
    with Cons.prems have "item \<in> set recipe"
      by (auto simp: skipped_def)
    from Cons.IH [OF this Cons.prems(2-6)] True show ?thesis
      by (simp add: deduct_skipped)
  next
    case False
    then obtain hi hq where h: "ri_ingredient h = Some hi" "ri_quantity h = Some hq" "0 < hq"
      using not_skippedD by blast
    show ?thesis
    proof (cases "objects_get pk (products d) (pk hi)")
      case None
      with h show ?thesis by (simp add: deduct_taken)
    next
      case (Some u)
      then have pku: "pk u = pk hi" by (auto dest: objects_get_SomeD)
      show ?thesis
      proof (cases "stock u < hq * S")
        case True
        with h Some show ?thesis by (simp add: deduct_taken)
      next
        case enough: False
        let ?u' = "u\<lparr>stock := stock u - hq * S\<rparr>"
        let ?d1 = "d\<lparr>products := objects_save pk ?u' (products d)\<rparr>"
        have step: "deduct_ingredients S (h # recipe) d = deduct_ingredients S recipe ?d1"
          using h Some enough by (simp add: deduct_taken)
        have "item \<noteq> h"
        proof
          assume "item = h"
          with Cons.prems h have "hi = ing" "hq = q" by simp_all
          with Cons.prems(5,6) Some enough show False by simp
        qed
        with Cons.prems(1) have mem: "item \<in> set recipe" by simp
        have "0 < hq * S" using h(3) S by simp
        then have "\<exists>p1. objects_get pk (products ?d1) (pk ing) = Some p1 \<and> stock p1 \<le> stock p"
          using Cons.prems(5) Some pku by (auto simp: objects_get_save)
        then obtain p1 where p1: "objects_get pk (products ?d1) (pk ing) = Some p1"
          and le: "stock p1 \<le> stock p" by blast
        from le Cons.prems(6) have "stock p1 < q * S" by simp
        from Cons.IH [OF mem Cons.prems(2,3,4) p1 this] step show ?thesis by simp
      qed
    qed
  qed
qed

lemma deduct_error:
  "deduct_ingredients S recipe d = (Inl e, d') \<Longrightarrow> ingredients_resolved recipe d \<Longrightarrow>
   \<exists>pre item post ing q p.
      recipe = pre @ item # post \<and> ri_ingredient item = Some ing \<and> ri_quantity item = Some q \<and>
      0 < q \<and> objects_get pk (products d) (pk ing) = Some p \<and>
      stock p - total_need S (pk ing) pre < q * S \<and>
      e = ValidationError
            [InsufficientIngredient (name ing) (q * S) (stock p - total_need S (pk ing) pre)]"
proof (induction recipe arbitrary: d)
  case Nil
  then show ?case by simp
next
  case (Cons h recipe)
  from Cons.prems(2) have res: "ingredients_resolved recipe d"
    by (simp add: resolved_Cons)
  show ?case
  proof (cases "skipped h")
    case True
    with Cons.prems(1) have "deduct_ingredients S recipe d = (Inl e, d')"
      by (simp add: deduct_skipped)
    from Cons.IH [OF this res] obtain pre item post ing q p where *:
      "recipe = pre @ item # post" "ri_ingredient item = Some ing" "ri_quantity item = Some q"
      "0 < q" "objects_get pk (products d) (pk ing) = Some p"
      "stock p - total_need S (pk ing) pre < q * S"
      "e = ValidationError
            [InsufficientIngredient (name ing) (q * S) (stock p - total_need S (pk ing) pre)]"
      by blast
    have tn: "total_need S (pk ing) (h # pre) = total_need S (pk ing) pre"
      using True by (simp add: total_need_Cons line_need_skipped)
    have "h # recipe = (h # pre) @ item # post" using *(1) by simp
    with * tn show ?thesis by metis
  next
    case False
    then obtain hi hq where h: "ri_ingredient h = Some hi" "ri_quantity h = Some hq" "0 < hq"
      using not_skippedD by blast
    from Cons.prems(2) h obtain u where u: "objects_get pk (products d) (pk hi) = Some u"
      by (auto simp: resolved_Cons)
    then have pku: "pk u = pk hi" by (auto dest: objects_get_SomeD)
    show ?thesis
    proof (cases "stock u < hq * S")
      case True
      with Cons.prems(1) h u
      have e: "e = ValidationError [InsufficientIngredient (name hi) (hq * S) (stock u)]"
        by (simp add: deduct_taken)
      have "h # recipe = [] @ h # recipe" by simp
      moreover have "stock u - total_need S (pk hi) [] < hq * S"
        using True by (simp add: total_need_Nil)
      moreover have "e = ValidationError
            [InsufficientIngredient (name hi) (hq * S) (stock u - total_need S (pk hi) [])]"
        using e by (simp add: total_need_Nil)
      ultimately show ?thesis using h u by blast
    next
      case enough: False
      let ?u' = "u\<lparr>stock := stock u - hq * S\<rparr>"
      let ?d1 = "d\<lparr>products := objects_save pk ?u' (products d)\<rparr>"
      have step: "deduct_ingredients S recipe ?d1 = (Inl e, d')"
        using Cons.prems(1) h u enough by (simp add: deduct_taken)
      have res1: "ingredients_resolved recipe ?d1"
        using res by (simp add: resolved_save)
      from Cons.IH [OF step res1] obtain pre item post ing q p1 where *:
        "recipe = pre @ item # post" "ri_ingredient item = Some ing" "ri_quantity item = Some q"
        "0 < q" "objects_get pk (products ?d1) (pk ing) = Some p1"
        "stock p1 - total_need S (pk ing) pre < q * S"
        "e = ValidationError
              [InsufficientIngredient (name ing) (q * S) (stock p1 - total_need S (pk ing) pre)]"
        by blast
      have "\<exists>p. objects_get pk (products d) (pk ing) = Some p \<and>
                stock p - total_need S (pk ing) (h # pre) = stock p1 - total_need S (pk ing) pre"
      proof (cases "pk ing = pk hi")
        case True
        with *(5) u pku have "p1 = ?u'" by (simp add: objects_get_save)
        with True u h show ?thesis
          by (simp add: total_need_Cons line_need_taken algebra_simps)
      next
        case False
        with *(5) pku have "objects_get pk (products d) (pk ing) = Some p1"
          by (simp add: objects_get_save)
        with False h show ?thesis
          by (simp add: total_need_Cons line_need_taken)
      qed
      then obtain p where p: "objects_get pk (products d) (pk ing) = Some p"
        "stock p - total_need S (pk ing) (h # pre) = stock p1 - total_need S (pk ing) pre"
        by blast
      have "h # recipe = (h # pre) @ item # post" using *(1) by simp
      with * p show ?thesis by metis
    qed
  qed
qed

lemma list_all_save:
  "list_all P rows \<Longrightarrow> P obj \<Longrightarrow> list_all P (objects_save key obj rows)"
  by (induction rows) (simp_all add: objects_save_def)

lemma nonneg_save:
  "nonneg_stocks d \<Longrightarrow> 0 \<le> stock u \<Longrightarrow>
   nonneg_stocks (d\<lparr>products := objects_save pk u (products d)\<rparr>)"
  by (simp add: nonneg_stocks_def list_all_save)

lemma deduct_nonneg:
  "nonneg_stocks d \<Longrightarrow> nonneg_stocks (snd (deduct_ingredients S recipe d))"
proof (induction recipe arbitrary: d)
  case Nil
  then show ?case by simp
next
  case (Cons h recipe)
  show ?case
  proof (cases "skipped h")
    case True
    with Cons show ?thesis by (simp add: deduct_skipped)
  next
    case False
    then obtain hi hq where h: "ri_ingredient h = Some hi" "ri_quantity h = Some hq" "0 < hq"
      using not_skippedD by blast
    show ?thesis
    proof (cases "objects_get pk (products d) (pk hi)")
      case None
      with h Cons.prems show ?thesis by (simp add: deduct_taken)
    next
      case (Some u)
      show ?thesis
      proof (cases "stock u < hq * S")
        case True
        with h Some Cons.prems show ?thesis by (simp add: deduct_taken)
      next
        case False
        then have "0 \<le> stock (u\<lparr>stock := stock u - hq * S\<rparr>)" by simp
        from Cons.IH [OF nonneg_save [OF Cons.prems this]] h Some False
        show ?thesis by (simp add: deduct_taken)
      qed
    qed
  qed
qed

section \<open>Creating a product\<close>

lemma create_recipe_links_eq:
  "create_recipe_links obj recipe d =
     d\<lparr>recipe_ingredients := recipe_ingredients d @ map (recipe_link obj) recipe\<rparr>"
  by (induction recipe arbitrary: d) simp_all

lemma ProductSerializer_create_eq:
  "ProductSerializer_create defaults vd d =
     (if 0 < initial_stock_of vd then
        (case deduct_ingredients (initial_stock_of vd) (recipe_of vd) (with_product defaults vd d) of
           (Inl e, d3) \<Rightarrow> (Inl e, d)
         | (Inr u, d3) \<Rightarrow> (Inr (new_product defaults vd d), d3))
      else (Inr (new_product defaults vd d), with_product defaults vd d))"
  by (simp add: ProductSerializer_create_def atomic_def Product_objects_create_def Let_def
        create_recipe_links_eq new_product_def with_product_def recipe_of_def initial_stock_of_def
      split: prod.splits sum.splits)

lemma pk_new_product: "pk (new_product defaults vd d) = next_pk pk (products d)"
  by (simp add: new_product_def Product_objects_create_def Let_def)

lemma stock_new_product:
  "stock (new_product defaults vd d) =
     (case v_stock vd of None \<Rightarrow> stock defaults | Some s \<Rightarrow> s)"
  by (simp add: new_product_def Product_objects_create_def Let_def)

lemma get_with_product:
  "objects_get pk (products (with_product defaults vd d)) k =
     (case objects_get pk (products d) k of
        None \<Rightarrow> (if k = next_pk pk (products d) then Some (new_product defaults vd d) else None)
      | Some p \<Rightarrow> Some p)"
  by (auto simp: with_product_def objects_get_append pk_new_product split: option.splits)

lemma resolved_with_product:
  "ingredients_resolved recipe d \<Longrightarrow> ingredients_resolved recipe (with_product defaults vd d)"
  by (induction recipe)
     (auto simp: ingredients_resolved_def get_with_product split: option.splits)









lemma resolved_member:
  "ingredients_resolved recipe d \<Longrightarrow> item \<in> set recipe \<Longrightarrow> ri_ingredient item = Some ing \<Longrightarrow>
   objects_get pk (products d) (pk ing) \<noteq> None"
  by (auto simp: ingredients_resolved_def list_all_iff split: option.splits)

lemma nonneg_get:
  "nonneg_stocks d \<Longrightarrow> objects_get pk (products d) k = Some p \<Longrightarrow> 0 \<le> stock p"
  by (auto simp: nonneg_stocks_def list_all_iff dest!: objects_get_SomeD)

text \<open>
  Claim C2. \<^verbatim>\<open>ProductSerializer.create\<close> with initial stock \<open>S > 0\<close>, in a store
  whose stocks are not negative (the invariant of the data model), with a recipe line whose
  ingredient holds less than the line's quantity per unit times \<open>S\<close>: the call fails and
  the store it leaves is the store it found, so that no product row and no recipe link of the
  call persists and no ingredient's stock has changed, deductions made for earlier lines
  included. When every ingredient of the recipe is in the store, the error is the
  insufficient-stock message of some line of the recipe: it names that line's ingredient, the
  quantity needed (quantity per unit times \<open>S\<close>) and the quantity available when the line
  was reached (the ingredient's stock less what the earlier lines took), which is less than
  the quantity needed.
\<close>

theorem insufficient_ingredient_rolls_back:
  assumes S: "0 < initial_stock_of vd"
    and nonneg: "nonneg_stocks d"
    and line: "item \<in> set (recipe_of vd)" "ri_ingredient item = Some ing"
      "ri_quantity item = Some q"
    and short: "objects_get pk (products d) (pk ing) = Some p" "stock p < q * initial_stock_of vd"
  shows "\<exists>e. ProductSerializer_create defaults vd d = (Inl e, d) \<and>
    (ingredients_resolved (recipe_of vd) d \<longrightarrow>
      (\<exists>pre failing post ing' q' p'.
         recipe_of vd = pre @ failing # post \<and>
         ri_ingredient failing = Some ing' \<and> ri_quantity failing = Some q' \<and> 0 < q' \<and>
         objects_get pk (products d) (pk ing') = Some p' \<and>
         stock p' - total_need (initial_stock_of vd) (pk ing') pre < q' * initial_stock_of vd \<and>
         e = ValidationError
               [InsufficientIngredient (name ing') (q' * initial_stock_of vd)
                  (stock p' - total_need (initial_stock_of vd) (pk ing') pre)]))"
proof -
  let ?S = "initial_stock_of vd" and ?d2 = "with_product defaults vd d"
  from nonneg short(1) have "0 \<le> stock p" by (rule nonneg_get)
  with short(2) have "0 < q * ?S" by simp
  with S have q: "0 < q" by (simp add: zero_less_mult_iff)
  have g2: "objects_get pk (products ?d2) (pk ing) = Some p"
    using short(1) by (simp add: get_with_product)
  from deduct_failure [OF S line(1,2,3) q g2 short(2)]
  obtain e d3 where fail: "deduct_ingredients ?S (recipe_of vd) ?d2 = (Inl e, d3)"
    by blast
  with S have create: "ProductSerializer_create defaults vd d = (Inl e, d)"
    by (simp add: ProductSerializer_create_eq)
  have shape: "\<exists>pre failing post ing' q' p'.
         recipe_of vd = pre @ failing # post \<and>
         ri_ingredient failing = Some ing' \<and> ri_quantity failing = Some q' \<and> 0 < q' \<and>
         objects_get pk (products d) (pk ing') = Some p' \<and>
         stock p' - total_need ?S (pk ing') pre < q' * ?S \<and>
         e = ValidationError
               [InsufficientIngredient (name ing') (q' * ?S)
                  (stock p' - total_need ?S (pk ing') pre)]"
    if res: "ingredients_resolved (recipe_of vd) d"
  proof -
    from res have "ingredients_resolved (recipe_of vd) ?d2"
      by (rule resolved_with_product)
    from deduct_error [OF fail this]
    obtain pre failing post ing' q' p' where *:
      "recipe_of vd = pre @ failing # post"
      "ri_ingredient failing = Some ing'" "ri_quantity failing = Some q'" "0 < q'"
      "objects_get pk (products ?d2) (pk ing') = Some p'"
      "stock p' - total_need ?S (pk ing') pre < q' * ?S"
      "e = ValidationError
             [InsufficientIngredient (name ing') (q' * ?S)
                (stock p' - total_need ?S (pk ing') pre)]"
      by blast
    from *(1) have "failing \<in> set (recipe_of vd)" by simp
    from resolved_member [OF res this *(2)] *(5)
    have "objects_get pk (products d) (pk ing') = Some p'"
      by (auto simp: get_with_product split: option.splits)
    with * show ?thesis by blast
  qed
  from create shape show ?thesis by blast
qed

theorem insufficient_ingredient_rolls_back_witness:
  "0 < initial_stock_of torta \<and> nonneg_stocks almacen \<and>
   \<lparr>ri_ingredient = Some harina, ri_quantity = Some 3, ri_unit = ''kg''\<rparr>
     \<in> set (recipe_of torta) \<and>
   objects_get pk (products almacen) (pk harina) = Some harina \<and>
   stock harina < 3 * initial_stock_of torta \<and>
   ingredients_resolved (recipe_of torta) almacen \<and>
   ProductSerializer_create no_defaults torta almacen =
     (Inl (ValidationError [InsufficientIngredient ''harina'' 12 10]), almacen)"
proof -
  let ?line = "\<lparr>ri_ingredient = Some harina, ri_quantity = Some 3, ri_unit = ''kg''\<rparr>"
  have h1: "0 < initial_stock_of torta"
    by (simp add: initial_stock_of_def torta_def)
  have h2: "nonneg_stocks almacen"
    by (simp add: nonneg_stocks_def example_defs)
  have h3: "?line \<in> set (recipe_of torta)"
    by (simp add: recipe_of_def torta_def)
  have h4: "objects_get pk (products almacen) (pk harina) = Some harina"
    by (simp add: objects_get_def example_defs)
  have h5: "stock harina < 3 * initial_stock_of torta"
    by (simp add: initial_stock_of_def torta_def harina_def)
  have h6: "ingredients_resolved (recipe_of torta) almacen"
    by (simp add: ingredients_resolved_def recipe_of_def objects_get_def torta_def example_defs)
  from insufficient_ingredient_rolls_back
         [of torta almacen ?line harina 3 harina no_defaults, OF h1 h2 h3 _ _ h4 h5]
  obtain e where e: "ProductSerializer_create no_defaults torta almacen = (Inl e, almacen)"
    by auto
  have "fst (ProductSerializer_create no_defaults torta almacen) =
          Inl (ValidationError [InsufficientIngredient ''harina'' 12 10])"
    by (simp add: ProductSerializer_create_eq initial_stock_of_def recipe_of_def with_product_def
          new_product_def Product_objects_create_def next_pk_def objects_get_def objects_save_def
          deduct_ingredients.simps(2) torta_def example_defs)
  with e h1 h2 h3 h4 h5 h6 show ?thesis by simp
qed

section \<open>The sale loop\<close>

lemma sale_not_found:
  "(case sid_product_id item of None \<Rightarrow> None | Some k \<Rightarrow> objects_get pk (products d) k) = None \<Longrightarrow>
   sale_items_loop s (item # rest) d =
     (Inl (ValidationError [ProductNotFound (sid_product_id item)]), d)"
  by (simp add: Let_def)

lemma sale_found:
  "sid_product_id item = Some k \<Longrightarrow> objects_get pk (products d) k = Some p \<Longrightarrow>
   sale_items_loop s (item # rest) d =
     (case sid_quantity item of
        None \<Rightarrow> (Inl TypeError, d)
      | Some q \<Rightarrow>
          if stock p < q
          then (Inl (ValidationError [InsufficientStock (name p) (stock p) q]), d)
          else sale_items_loop s rest
                 (d\<lparr>sale_items := sale_items d @
                       [\<lparr>si_sale = s_id s, si_product = pk p, si_quantity = q,
                         si_price = sid_price item\<rparr>],
                    products := objects_save pk (p\<lparr>stock := stock p - q\<rparr>) (products d)\<rparr>))"
  by (simp add: Let_def)

declare sale_items_loop.simps(2) [simp del]

lemma sale_nonneg:
  "nonneg_stocks d \<Longrightarrow> nonneg_stocks (snd (sale_items_loop s items d))"
proof (induction items arbitrary: d)
  case Nil
  then show ?case by simp
next
  case (Cons item items)
  show ?case
  proof (cases "case sid_product_id item of None \<Rightarrow> None | Some k \<Rightarrow> objects_get pk (products d) k")
    case None
    with Cons.prems show ?thesis by (simp add: sale_not_found)
  next
    case (Some p)
    then obtain k where k: "sid_product_id item = Some k" "objects_get pk (products d) k = Some p"
      by (auto split: option.splits)
    show ?thesis
    proof (cases "sid_quantity item")
      case None
      with k Cons.prems show ?thesis by (simp add: sale_found)
    next
      case (Some q)
      show ?thesis
      proof (cases "stock p < q")
        case True
        with k Some Cons.prems show ?thesis by (simp add: sale_found)
      next
        case False
        let ?d1 = "d\<lparr>sale_items := sale_items d @
                       [\<lparr>si_sale = s_id s, si_product = pk p, si_quantity = q,
                         si_price = sid_price item\<rparr>],
                    products := objects_save pk (p\<lparr>stock := stock p - q\<rparr>) (products d)\<rparr>"
        from False have "0 \<le> stock (p\<lparr>stock := stock p - q\<rparr>)" by simp
        with Cons.prems have "nonneg_stocks ?d1"
          by (simp add: nonneg_stocks_def list_all_save)
        from Cons.IH [OF this] k Some False show ?thesis by (simp add: sale_found)
      qed
    qed
  qed
qed

lemma snd_SaleSerializer_create:
  "snd (SaleSerializer_create data d) =
     snd (sale_items_loop (fst (Sale_objects_create data d))
            (case sd_items data of None \<Rightarrow> [] | Some xs \<Rightarrow> xs)
            (snd (Sale_objects_create data d)))"
  by (auto simp: SaleSerializer_create_def Let_def split: prod.splits sum.splits)

lemma SaleSerializer_create_nonneg:
  assumes "nonneg_stocks d"
  shows "nonneg_stocks (snd (SaleSerializer_create data d))"
proof -
  have "products (snd (Sale_objects_create data d)) = products d"
    by (simp add: Sale_objects_create_def Let_def)
  with assms have "nonneg_stocks (snd (Sale_objects_create data d))"
    by (simp add: nonneg_stocks_def)
  then show ?thesis
    unfolding snd_SaleSerializer_create by (rule sale_nonneg)
qed

section \<open>The stock invariant\<close>

lemma run_validation_stock:
  "run_validation data = Inr vd \<Longrightarrow> v_stock vd = Some s \<Longrightarrow> 0 \<le> s"
  by (auto simp: run_validation_def Let_def validate_stock_def messages_def split: if_splits)

lemma nonneg_with_product:
  "nonneg_stocks d \<Longrightarrow> 0 \<le> stock (new_product defaults vd d) \<Longrightarrow>
   nonneg_stocks (with_product defaults vd d)"
  by (simp add: nonneg_stocks_def with_product_def)

lemma ProductSerializer_create_nonneg:
  assumes "nonneg_stocks d" "0 \<le> stock (new_product defaults vd d)"
  shows "nonneg_stocks (snd (ProductSerializer_create defaults vd d))"
proof -
  from assms have "nonneg_stocks (with_product defaults vd d)" by (rule nonneg_with_product)
  moreover from this have "nonneg_stocks (snd (deduct_ingredients (initial_stock_of vd) (recipe_of vd)
      (with_product defaults vd d)))" by (rule deduct_nonneg)
  ultimately show ?thesis using assms(1)
    by (auto simp: ProductSerializer_create_eq split: prod.splits sum.splits)
qed

lemma ProductSerializer_save_nonneg:
  assumes "nonneg_stocks d" "0 \<le> stock defaults"
  shows "nonneg_stocks (snd (ProductSerializer_save defaults data d))"
proof (cases "run_validation data")
  case (Inl e)
  with assms(1) show ?thesis by (simp add: ProductSerializer_save_def)
next
  case (Inr vd)
  have "0 \<le> stock (new_product defaults vd d)"
    using assms(2) run_validation_stock [OF Inr]
    by (simp add: stock_new_product split: option.splits)
  with assms(1) have "nonneg_stocks (snd (ProductSerializer_create defaults vd d))"
    by (rule ProductSerializer_create_nonneg)
  with Inr show ?thesis by (simp add: ProductSerializer_save_def)
qed

lemma handle_nonneg:
  "nonneg_stocks d \<Longrightarrow> 0 \<le> stock defaults \<Longrightarrow> nonneg_stocks (handle defaults r d)"
  by (cases r) (simp_all add: ProductSerializer_save_nonneg SaleSerializer_create_nonneg)

text \<open>
  Claim C1. From a store whose stocks are all non-negative, after any sequence of
  product-creation and sale requests, failed ones included, every product's stock is
  non-negative: ingredient deduction and sale alike subtract from a stock only what they
  have checked the stock to hold. A created product takes its stock from the validated
  payload, or from the default of the model class, which is taken to be non-negative.
\<close>

theorem stock_never_negative:
  "nonneg_stocks d \<Longrightarrow> 0 \<le> stock defaults \<Longrightarrow> nonneg_stocks (serve defaults requests d)"
proof (induction requests arbitrary: d)
  case Nil
  then show ?case by simp
next
  case (Cons r requests)
  from Cons.prems have "nonneg_stocks (handle defaults r d)" by (rule handle_nonneg)
  from Cons.IH [OF this Cons.prems(2)] show ?case by simp
qed


theorem stock_never_negative_witness:
  "nonneg_stocks almacen \<and> 0 \<le> stock no_defaults \<and>
   nonneg_stocks
     (serve no_defaults
        [PostProduct (pan (Some 3)),
         PostSale (venta [\<lparr>sid_product_id = Some 12, sid_quantity = Some 4, sid_price = Some 3\<rparr>,
                          \<lparr>sid_product_id = Some 11, sid_quantity = Some 2, sid_price = Some 2\<rparr>]),
         PostProduct torta]
        almacen)"
proof -
  have h1: "nonneg_stocks almacen"
    by (simp add: nonneg_stocks_def example_defs)
  have h2: "0 \<le> stock no_defaults"
    by (simp add: no_defaults_def)
  from stock_never_negative [OF h1 h2] h1 h2 show ?thesis by blast
qed

section \<open>Validation\<close>








section \<open>Creating a sale\<close>





text \<open>
  Claim C3 does not hold of \<^verbatim>\<open>SaleSerializer.create\<close>, which opens no transaction
  (\<^verbatim>\<open>ProductSerializer.create\<close> does). A sale whose second line names a product that
  does not exist, or asks for more than the stock, raises the error and leaves behind the
  \<^verbatim>\<open>Sale\<close> row, the \<^verbatim>\<open>SaleItem\<close> of the first line and the first product's
  stock reduced from 10 to 8.
\<close>

theorem failed_sale_persists:
  "SaleSerializer_create
     (venta [\<lparr>sid_product_id = Some 11, sid_quantity = Some 2, sid_price = Some 7\<rparr>,
             \<lparr>sid_product_id = Some 99, sid_quantity = Some 1, sid_price = Some 1\<rparr>]) almacen =
     (Inl (ValidationError [ProductNotFound (Some 99)]),
      almacen\<lparr>sales := [\<lparr>s_id = 1, s_total_amount = 20, s_payment_method = ''efectivo''\<rparr>],
              sale_items := [\<lparr>si_sale = 1, si_product = 11, si_quantity = 2, si_price = Some 7\<rparr>],
              products := [harina\<lparr>stock := 8\<rparr>, azucar]\<rparr>) \<and>
   SaleSerializer_create
     (venta [\<lparr>sid_product_id = Some 11, sid_quantity = Some 2, sid_price = Some 7\<rparr>,
             \<lparr>sid_product_id = Some 12, sid_quantity = Some 5, sid_price = Some 1\<rparr>]) almacen =
     (Inl (ValidationError [InsufficientStock ''azucar'' 4 5]),
      almacen\<lparr>sales := [\<lparr>s_id = 1, s_total_amount = 20, s_payment_method = ''efectivo''\<rparr>],
              sale_items := [\<lparr>si_sale = 1, si_product = 11, si_quantity = 2, si_price = Some 7\<rparr>],
              products := [harina\<lparr>stock := 8\<rparr>, azucar]\<rparr>)"
  by (simp add: SaleSerializer_create_def Sale_objects_create_def Let_def next_pk_def objects_get_def
        objects_save_def sale_items_loop.simps(2) venta_def example_defs)

section \<open>Creating an order\<close>

lemma order_items_loop_total:
  "fst (order_items_loop obj tot items d) = tot + sum_list (map line_total items)"
  by (induction items arbitrary: tot d) (simp_all add: Let_def line_total_def)

lemma order_items_loop_orders:
  "orders (snd (order_items_loop obj tot items d)) = orders d"
  by (induction items arbitrary: tot d) (simp_all add: Let_def)

lemma Order_objects_create_eq:
  "Order_objects_create defaults data d =
     (new_order defaults data d, d\<lparr>orders := orders d @ [new_order defaults data d]\<rparr>)"
  by (simp add: new_order_def Order_objects_create_def Let_def)

lemma o_id_new_order: "o_id (new_order defaults data d) = next_pk o_id (orders d)"
  by (simp add: new_order_def Order_objects_create_def Let_def)

lemma OrderSerializer_create_eq:
  "OrderSerializer_create defaults data d =
     (let obj = new_order defaults data d;
          r = order_items_loop obj 0 (order_items_of data) (d\<lparr>orders := orders d @ [obj]\<rparr>);
          saved = obj\<lparr>o_total_amount := fst r\<rparr>
      in (saved, (snd r)\<lparr>orders := objects_save o_id saved (orders (snd r))\<rparr>))"
  by (simp add: OrderSerializer_create_def Order_objects_create_eq order_items_of_def Let_def
        split: prod.splits)

text \<open>
  Claim C8. \<^verbatim>\<open>OrderSerializer.create\<close> returns and stores the order with
  \<^verbatim>\<open>total_amount\<close> equal to the sum over the submitted items of quantity times unit
  price, whatever amount the payload carried: the row read from the order table under the
  new key is the returned order. The representation of the order shows that stored amount,
  whatever the item rows in the store are when it is read. For the items (3 at 10, 2 at 5)
  the amount is 40.
\<close>

theorem order_total_persisted:
  "o_total_amount (fst (OrderSerializer_create defaults data d)) =
     sum_list (map line_total (order_items_of data)) \<and>
   objects_get o_id (orders (snd (OrderSerializer_create defaults data d)))
     (o_id (fst (OrderSerializer_create defaults data d))) =
     Some (fst (OrderSerializer_create defaults data d)) \<and>
   rep_total_amount (OrderSerializer_data d' (fst (OrderSerializer_create defaults data d))) =
     sum_list (map line_total (order_items_of data)) \<and>
   o_total_amount (fst (OrderSerializer_create defaults pedido d)) = 40"
proof -
  let ?obj = "new_order defaults data d"
  let ?r = "order_items_loop ?obj 0 (order_items_of data) (d\<lparr>orders := orders d @ [?obj]\<rparr>)"
  let ?saved = "?obj\<lparr>o_total_amount := fst ?r\<rparr>"
  have c: "OrderSerializer_create defaults data d =
      (?saved, (snd ?r)\<lparr>orders := objects_save o_id ?saved (orders (snd ?r))\<rparr>)"
    by (simp add: OrderSerializer_create_eq Let_def)
  have tot: "o_total_amount ?saved = sum_list (map line_total (order_items_of data))"
    by (simp add: order_items_loop_total)
  have "objects_get o_id (orders d @ [?obj]) (o_id ?obj) = Some ?obj"
    by (simp add: objects_get_append o_id_new_order objects_get_fresh)
  then have got: "objects_get o_id (objects_save o_id ?saved (orders (snd ?r))) (o_id ?saved) = Some ?saved"
    by (simp add: order_items_loop_orders objects_get_save)
  have ex: "o_total_amount (fst (OrderSerializer_create defaults pedido d)) = 40"
    by (simp add: OrderSerializer_create_eq Let_def order_items_loop_total order_items_of_def
          line_total_def pedido_def)
  show ?thesis
    unfolding c using tot got ex by (simp add: OrderSerializer_data_def)
qed

section \<open>Decimals, inventory changes and purchase totals\<close>






text \<open>An element that is no dict stops the loop with \<^verbatim>\<open>AttributeError\<close>.\<close>

lemma get_total_loop_not_dict:
  "\<not> list_all is_dict items \<Longrightarrow> get_total_loop tot items = Inl AttributeError"
proof (induction items arbitrary: tot)
  case Nil
  then show ?case by simp
next
  case (Cons v items)
  show ?case
  proof (cases v)
    case (JObj item)
    with Cons.prems have "\<not> list_all is_dict items" by simp
    note IH = Cons.IH [OF this]
    show ?thesis unfolding JObj by (simp add: IH split: option.splits)
  qed simp_all
qed










end
